theory Spec2Isabelle
  imports Complex_Main
begin

section \<open>Python values and errors\<close>

text \<open>
  The repository is two Python files: \<^verbatim>\<open>stable-diffusion/model.py\<close> (the class
  \<^verbatim>\<open>StableDiffusion\<close> and \<^verbatim>\<open>build_stable_diffusion_model\<close>) and
  \<^verbatim>\<open>examples/stable_diffusion_dreambooth/main.py\<close> (the training driver \<^verbatim>\<open>main\<close>).
  Every exception the two files can raise by themselves is a value of \<open>error\<close>; a
  function that can raise returns \<open>error + 'a\<close>, with \<open>Inl\<close> the exception.
\<close>

datatype error =
    KeyError string
  | ValueError string
  | AttributeError string
  | TypeError string
  | IndexError string

section \<open>The libraries the model is built on\<close>

text \<open>
  Tensors are values of one type \<open>'t\<close>, as every tensor of the source is a
  \<^verbatim>\<open>torch.Tensor\<close>. The tensor operations the source calls are the fields of a
  record: the model says which operation is applied to which value, and leaves what
  the operation computes (floating-point arithmetic on the device) to the library.
  \<open>'g\<close> is the state of torch's default random generator, which every sampling
  operation reads and advances.
\<close>

record ('t, 'g) torch =
  manual_seed :: "int \<Rightarrow> 'g"
  randn :: "int list \<Rightarrow> 'g \<Rightarrow> 't \<times> 'g"
  randn_like :: "'t \<Rightarrow> 'g \<Rightarrow> 't \<times> 'g"
  randint :: "int \<Rightarrow> int \<Rightarrow> int list \<Rightarrow> 'g \<Rightarrow> 't \<times> 'g"
  shape0 :: "'t \<Rightarrow> int"
  cat :: "'t list \<Rightarrow> 't"
  chunk :: "'t \<Rightarrow> int \<Rightarrow> 't list"
  t_add :: "'t \<Rightarrow> 't \<Rightarrow> 't"
  t_sub :: "'t \<Rightarrow> 't \<Rightarrow> 't"
  t_mul :: "'t \<Rightarrow> 't \<Rightarrow> 't"
  scalar_mul :: "real \<Rightarrow> 't \<Rightarrow> 't"
  scalar_div :: "'t \<Rightarrow> real \<Rightarrow> 't"
  scalar_add :: "'t \<Rightarrow> real \<Rightarrow> 't"
  clamp :: "'t \<Rightarrow> real \<Rightarrow> real \<Rightarrow> 't"

text \<open>
  The training schedule (\<^verbatim>\<open>DDPMScheduler\<close>): its configured prediction type, its
  length (\<^verbatim>\<open>len(scheduler)\<close>) and its two pure functions.
\<close>

record 't noise_scheduler =
  prediction_type :: string
  scheduler_len :: int
  add_noise :: "'t \<Rightarrow> 't \<Rightarrow> 't \<Rightarrow> 't"
  get_velocity :: "'t \<Rightarrow> 't \<Rightarrow> 't \<Rightarrow> 't"

text \<open>
  The inference schedule (\<^verbatim>\<open>LMSDiscreteScheduler\<close>) is an object with state \<open>'s\<close>:
  \<^verbatim>\<open>set_timesteps\<close> writes it, \<^verbatim>\<open>timesteps\<close> and \<^verbatim>\<open>init_noise_sigma\<close> read it,
  \<^verbatim>\<open>scale_model_input\<close> and \<^verbatim>\<open>step\<close> read and write it.
\<close>

record ('t, 's) inference_scheduler =
  set_timesteps :: "int \<Rightarrow> 's \<Rightarrow> 's"
  timesteps :: "'s \<Rightarrow> 't list"
  init_noise_sigma :: "'s \<Rightarrow> 't"
  scale_model_input :: "'s \<Rightarrow> 't \<Rightarrow> 't \<Rightarrow> 't \<times> 's"
  step :: "'s \<Rightarrow> 't \<Rightarrow> 't \<Rightarrow> 't \<Rightarrow> 't \<times> 's"

section \<open>The class StableDiffusion\<close>

text \<open>
  The pretrained components. \<open>unet_forward\<close> is the call
  \<^verbatim>\<open>unet(sample, timestep, encoder_hidden_states)\<close> followed by the read of its
  \<^verbatim>\<open>sample\<close>; \<open>encode_sample\<close> is \<^verbatim>\<open>vae.encode(x)['latent_dist'].sample().data\<close>,
  which draws from the generator; \<open>decode\<close> is \<^verbatim>\<open>vae.decode(z).sample\<close>.
\<close>

record 't unet2d =
  unet_forward :: "'t \<Rightarrow> 't \<Rightarrow> 't \<Rightarrow> 't"
  in_channels :: int
  sample_size :: int
  xformers_enabled :: bool

record ('t, 'g) autoencoder =
  encode_sample :: "'t \<Rightarrow> 'g \<Rightarrow> 't \<times> 'g"
  decode :: "'t \<Rightarrow> 't"

text \<open>
  The attributes \<^verbatim>\<open>__init__\<close> assigns, those that \<^verbatim>\<open>forward\<close> and \<^verbatim>\<open>generate\<close>
  read. \<open>text_encoder\<close> is the call of the encoder followed by \<^verbatim>\<open>[0]\<close>;
  \<open>tokenizer\<close> takes the prompts and the \<^verbatim>\<open>truncation\<close> flag and gives the
  \<^verbatim>\<open>input_ids\<close>. The two \<open>requires_grad\<close> flags are what \<^verbatim>\<open>__init__\<close> leaves on the
  autoencoder, which it freezes, and on the text encoder, which it freezes unless
  \<^verbatim>\<open>train_text_encoder\<close> is set. Moving a tensor to a device does not change its
  value and is left out.
\<close>

record ('t, 'g, 's) stable_diffusion =
  unet :: "'t unet2d"
  vae :: "('t, 'g) autoencoder"
  text_encoder :: "'t \<Rightarrow> 't"
  tokenizer :: "string list \<Rightarrow> bool \<Rightarrow> 't"
  noise_scheduler :: "'t noise_scheduler"
  inference_scheduler :: "('t, 's) inference_scheduler"
  vae_requires_grad :: bool
  text_encoder_requires_grad :: bool
  image_key :: string
  caption_key :: string

definition StableDiffusion_init ::
  "'t unet2d \<Rightarrow> ('t, 'g) autoencoder \<Rightarrow> ('t \<Rightarrow> 't) \<Rightarrow> (string list \<Rightarrow> bool \<Rightarrow> 't) \<Rightarrow>
   't noise_scheduler \<Rightarrow> ('t, 's) inference_scheduler \<Rightarrow> bool \<Rightarrow> string \<Rightarrow> string \<Rightarrow>
   ('t, 'g, 's) stable_diffusion" where
  "StableDiffusion_init u v te tok ns isch train_text_encoder ik ck =
     \<lparr>unet = u, vae = v, text_encoder = te, tokenizer = tok, noise_scheduler = ns,
      inference_scheduler = isch, vae_requires_grad = False,
      text_encoder_requires_grad = train_text_encoder, image_key = ik, caption_key = ck\<rparr>"

text \<open>
  What a call of \<^verbatim>\<open>forward\<close> or \<^verbatim>\<open>generate\<close> can change: the generator, the state of
  the inference schedule, and the log of the calls made into the denoising network and
  the schedules (the log is the model's record of which network calls happened).
\<close>

datatype 't call =
    AddNoiseCall 't 't 't
  | UnetCall 't 't 't
  | StepCall 't 't 't

record ('t, 'g, 's) world =
  rng :: 'g
  sched :: 's
  calls :: "'t call list"

subsection \<open>forward\<close>

definition forward ::
  "('t, 'g) torch \<Rightarrow> ('t, 'g, 's) stable_diffusion \<Rightarrow> (string \<rightharpoonup> 't) \<Rightarrow>
   ('t, 'g, 's) world \<Rightarrow> (error + 't \<times> 't) \<times> ('t, 'g, 's) world" where
  "forward T M batch w =
    (case batch (image_key M) of
       None \<Rightarrow> (Inl (KeyError (image_key M)), w)
     | Some inputs \<Rightarrow>
    (case batch (caption_key M) of
       None \<Rightarrow> (Inl (KeyError (caption_key M)), w)
     | Some conditioning0 \<Rightarrow>
       let (latents0, g1) = encode_sample (vae M) inputs (rng w);
           latents = scalar_mul T (18215 / 100000) latents0;
           conditioning = text_encoder M conditioning0;
           (timesteps, g2) =
             randint T 0 (scheduler_len (noise_scheduler M)) [shape0 T latents] g1;
           (noise, g3) = randn_like T latents g2;
           noised_latents = add_noise (noise_scheduler M) latents noise timesteps;
           w1 = w\<lparr>rng := g3, calls := calls w @ [AddNoiseCall latents noise timesteps]\<rparr>;
           run_unet = (\<lambda>target.
             (Inr (unet_forward (unet M) noised_latents timesteps conditioning, target),
              w1\<lparr>calls := calls w1 @ [UnetCall noised_latents timesteps conditioning]\<rparr>))
       in if prediction_type (noise_scheduler M) = ''epsilon'' then run_unet noise
          else if prediction_type (noise_scheduler M) = ''v_prediction''
            then run_unet (get_velocity (noise_scheduler M) latents noise timesteps)
          else (Inl (ValueError (''Unknown prediction type '' @
                  prediction_type (noise_scheduler M))), w1)))"

definition is_unet_call :: "'t call \<Rightarrow> bool" where
  "is_unet_call c = (case c of UnetCall _ _ _ \<Rightarrow> True | _ \<Rightarrow> False)"

subsection \<open>generate\<close>

text \<open>
  The arguments of \<^verbatim>\<open>generate\<close>. \<^verbatim>\<open>height\<close> and \<^verbatim>\<open>width\<close> default to \<^verbatim>\<open>None\<close>.
\<close>

record gen_args =
  prompt :: "string list"
  height :: "int option"
  width :: "int option"
  num_inference_steps :: int
  guidance_scale :: real
  negative_prompt :: "string list option"
  num_images_per_prompt :: int
  eta :: real

text \<open>
  The conversion of the decoded tensor to images goes through numpy and PIL:
  \<open>to_numpy_nhwc\<close> is \<^verbatim>\<open>.detach().cpu().permute(0, 2, 3, 1).numpy()\<close>, \<open>round_uint8\<close>
  is \<^verbatim>\<open>.round().astype("uint8")\<close>, \<open>rows\<close> is the iteration over the first axis of
  an array and \<open>fromarray\<close> is \<^verbatim>\<open>Image.fromarray\<close>.
\<close>

record ('t, 'i) imaging =
  to_numpy_nhwc :: "'t \<Rightarrow> 't"
  np_scalar_mul :: "'t \<Rightarrow> real \<Rightarrow> 't"
  round_uint8 :: "'t \<Rightarrow> 't"
  rows :: "'t \<Rightarrow> 't list"
  fromarray :: "'t \<Rightarrow> 'i"

text \<open>
  \<^verbatim>\<open>self.vae_scale_factor\<close>: \<^verbatim>\<open>__init__\<close> assigns no attribute of this name and the
  class defines none, so the lookup raises.
\<close>

definition vae_scale_factor :: "('t, 'g, 's) stable_diffusion \<Rightarrow> error + int" where
  "vae_scale_factor M = Inl (AttributeError ''vae_scale_factor'')"

text \<open>
  \<^verbatim>\<open>self.unet.config.sample_size * self.vae_scale_factor\<close>, the right operand of the
  two \<^verbatim>\<open>or\<close>s.
\<close>

definition default_size :: "('t, 'g, 's) stable_diffusion \<Rightarrow> error + int" where
  "default_size M =
    (case vae_scale_factor M of Inl e \<Rightarrow> Inl e | Inr f \<Rightarrow> Inr (sample_size (unet M) * f))"

text \<open>
  \<^verbatim>\<open>v or d\<close> on an optional integer: \<^verbatim>\<open>None\<close> and \<^verbatim>\<open>0\<close> are falsy, and only then is
  the right operand evaluated.
\<close>

definition py_or :: "int option \<Rightarrow> (error + int) \<Rightarrow> error + int" where
  "py_or v d = (case v of None \<Rightarrow> d | Some n \<Rightarrow> if n = 0 then d else Inr n)"

text \<open>
  The reverse-diffusion loop, over the timesteps read when the loop starts. The
  assignment \<^verbatim>\<open>noise_pred_uncond, noise_pred_text = noise_pred.chunk(2)\<close> raises
  \<^verbatim>\<open>ValueError\<close> when \<^verbatim>\<open>chunk\<close> does not give two tensors.
\<close>

fun denoise ::
  "('t, 'g) torch \<Rightarrow> ('t, 'g, 's) stable_diffusion \<Rightarrow> real \<Rightarrow> 't \<Rightarrow> 't list \<Rightarrow> 't \<Rightarrow>
   ('t, 'g, 's) world \<Rightarrow> (error + 't) \<times> ('t, 'g, 's) world" where
  "denoise T M gs text_embeddings [] latents w = (Inr latents, w)"
| "denoise T M gs text_embeddings (t # ts) latents w =
    (let latent_model_input0 = cat T [latents, latents];
         (latent_model_input, s1) =
            scale_model_input (inference_scheduler M) (sched w) latent_model_input0 t;
         noise_pred0 = unet_forward (unet M) latent_model_input t text_embeddings;
         w1 = w\<lparr>sched := s1, calls := calls w @ [UnetCall latent_model_input t text_embeddings]\<rparr>
     in case chunk T noise_pred0 2 of
          [noise_pred_uncond, noise_pred_text] \<Rightarrow>
            let noise_pred = t_add T noise_pred_uncond
                  (scalar_mul T gs (t_sub T noise_pred_text noise_pred_uncond));
                (latents', s2) = step (inference_scheduler M) s1 noise_pred t latents;
                w2 = w1\<lparr>sched := s2, calls := calls w1 @ [StepCall noise_pred t latents]\<rparr>
            in denoise T M gs text_embeddings ts latents' w2
        | _ \<Rightarrow> (Inl (ValueError ''not enough values to unpack (expected 2)''), w1))"

definition generate ::
  "('t, 'g) torch \<Rightarrow> ('t, 'i) imaging \<Rightarrow> ('t, 'g, 's) stable_diffusion \<Rightarrow> gen_args \<Rightarrow>
   ('t, 'g, 's) world \<Rightarrow> (error + 'i list) \<times> ('t, 'g, 's) world" where
  "generate T P M a w =
    (let batch_size = 1 in
     case py_or (height a) (default_size M) of
       Inl e \<Rightarrow> (Inl e, w)
     | Inr h \<Rightarrow>
    (case py_or (width a) (default_size M) of
       Inl e \<Rightarrow> (Inl e, w)
     | Inr wd \<Rightarrow>
       let generator = manual_seed T 32;
           text_input = tokenizer M (prompt a) True;
           uncond_input = tokenizer M (replicate (nat batch_size) '''') False;
           text_embeddings0 = text_encoder M text_input;
           uncond_embeddings = text_encoder M uncond_input;
           text_embeddings = cat T [uncond_embeddings, text_embeddings0];
           (latents0, g1) =
             randn T [batch_size, in_channels (unet M), h div 8, wd div 8] generator;
           s1 = set_timesteps (inference_scheduler M) (num_inference_steps a) (sched w);
           latents1 = t_mul T latents0 (init_noise_sigma (inference_scheduler M) s1);
           w1 = w\<lparr>rng := g1, sched := s1\<rparr>;
           (r, w2) = denoise T M (guidance_scale a) text_embeddings
                       (timesteps (inference_scheduler M) s1) latents1 w1
       in (case r of
            Inl e \<Rightarrow> (Inl e, w2)
          | Inr latents2 \<Rightarrow>
              let latents3 = scalar_mul T (1 / (18215 / 100000)) latents2;
                  image0 = decode (vae M) latents3;
                  image1 = clamp T (scalar_add T (scalar_div T image0 2) (1 / 2)) 0 1;
                  image2 = to_numpy_nhwc P image1;
                  images = round_uint8 P (np_scalar_mul P image2 255)
              in (Inr (map (fromarray P) (rows P images)), w2))))"

text \<open>
  The embeddings the loop conditions on: the unconditional embedding (of one empty
  prompt) followed by the embedding of the prompts.
\<close>

definition cfg_embeddings ::
  "('t, 'g) torch \<Rightarrow> ('t, 'g, 's) stable_diffusion \<Rightarrow> string list \<Rightarrow> 't" where
  "cfg_embeddings T M ps =
     cat T [text_encoder M (tokenizer M [''''] False), text_encoder M (tokenizer M ps True)]"

text \<open>
  Whether a call of \<^verbatim>\<open>generate\<close> gets past the two defaults and so reaches the loop:
  \<^verbatim>\<open>height\<close> and \<^verbatim>\<open>width\<close> are both given and not zero.
\<close>

definition sizes_given :: "gen_args \<Rightarrow> bool" where
  "sizes_given a =
     (case height a of
        None \<Rightarrow> False
      | Some h \<Rightarrow> (case width a of None \<Rightarrow> False | Some wd \<Rightarrow> h \<noteq> 0 \<and> wd \<noteq> 0))"

text \<open>The guided prediction, \<open>uncond + gs * (cond - uncond)\<close> in the library's arithmetic.\<close>

definition guided_prediction :: "('t, 'g) torch \<Rightarrow> real \<Rightarrow> 't \<Rightarrow> 't \<Rightarrow> 't" where
  "guided_prediction T gs uncond cond =
     t_add T uncond (scalar_mul T gs (t_sub T cond uncond))"

text \<open>
  What is asked of the log of calls of a loop over the timesteps \<open>ts\<close>, started with
  the schedule in state \<open>s\<close>, for a prediction \<open>pred uncond cond\<close>: the log has, for
  each timestep in order, one call of the network at that timestep on the scaled
  duplicate \<open>[l, l]\<close> of the latents \<open>l\<close>, followed by one call of the schedule's step
  at that timestep on \<open>l\<close> with the prediction \<open>pred uncond cond\<close>, where
  \<open>[uncond, cond]\<close> are the two chunks of what that one network call returned; and
  nothing else. The log may stop early only with a network call whose result does not
  split into two chunks: the iteration whose unpacking raised.
\<close>

fun paired_calls ::
  "('t, 'g) torch \<Rightarrow> ('t, 'g, 's) stable_diffusion \<Rightarrow> ('t \<Rightarrow> 't \<Rightarrow> 't) \<Rightarrow> 't \<Rightarrow> 's \<Rightarrow>
   't list \<Rightarrow> 't call list \<Rightarrow> bool" where
  "paired_calls T M pred emb s [] cs = (cs = [])"
| "paired_calls T M pred emb s (t # ts) (UnetCall x t' e # StepCall p t'' l # cs) =
     (let (x', s1) = scale_model_input (inference_scheduler M) s (cat T [l, l]) t
      in t' = t \<and> t'' = t \<and> x = x' \<and> e = emb \<and>
         (case chunk T (unet_forward (unet M) x t e) 2 of
            [uncond, cond] \<Rightarrow> p = pred uncond cond
          | _ \<Rightarrow> False) \<and>
         paired_calls T M pred emb (snd (step (inference_scheduler M) s1 p t l)) ts cs)"
| "paired_calls T M pred emb s (t # ts) [UnetCall x t' e] =
     (t' = t \<and> e = emb \<and>
      (case chunk T (unet_forward (unet M) x t e) 2 of [uncond, cond] \<Rightarrow> False | _ \<Rightarrow> True))"
| "paired_calls T M pred emb s (t # ts) cs = False"

definition guided_calls ::
  "('t, 'g) torch \<Rightarrow> ('t, 'g, 's) stable_diffusion \<Rightarrow> real \<Rightarrow> 't \<Rightarrow> 's \<Rightarrow> 't list \<Rightarrow>
   't call list \<Rightarrow> bool" where
  "guided_calls T M gs = paired_calls T M (guided_prediction T gs)"

text \<open>
  The loop without guidance, following the words of the specification (``omitting
  guidance'', \<open>pred = cond\<close>): the loop of \<^verbatim>\<open>generate\<close> with the conditional chunk
  handed to the step as it is. The source has no such loop; this one is what the loop
  of the source is compared with.
\<close>

fun denoise_unguided ::
  "('t, 'g) torch \<Rightarrow> ('t, 'g, 's) stable_diffusion \<Rightarrow> 't \<Rightarrow> 't list \<Rightarrow> 't \<Rightarrow>
   ('t, 'g, 's) world \<Rightarrow> (error + 't) \<times> ('t, 'g, 's) world" where
  "denoise_unguided T M text_embeddings [] latents w = (Inr latents, w)"
| "denoise_unguided T M text_embeddings (t # ts) latents w =
    (let latent_model_input0 = cat T [latents, latents];
         (latent_model_input, s1) =
            scale_model_input (inference_scheduler M) (sched w) latent_model_input0 t;
         noise_pred0 = unet_forward (unet M) latent_model_input t text_embeddings;
         w1 = w\<lparr>sched := s1, calls := calls w @ [UnetCall latent_model_input t text_embeddings]\<rparr>
     in case chunk T noise_pred0 2 of
          [noise_pred_uncond, noise_pred_text] \<Rightarrow>
            let (latents', s2) = step (inference_scheduler M) s1 noise_pred_text t latents;
                w2 = w1\<lparr>sched := s2, calls := calls w1 @ [StepCall noise_pred_text t latents]\<rparr>
            in denoise_unguided T M text_embeddings ts latents' w2
        | _ \<Rightarrow> (Inl (ValueError ''not enough values to unpack (expected 2)''), w1))"

text \<open>
  A tensor library computes the guided prediction with scale 1 without rounding error:
  multiplying by 1 changes nothing, and adding back what was subtracted gives the
  minuend.
\<close>

definition exact_cancellation :: "('t, 'g) torch \<Rightarrow> bool" where
  "exact_cancellation T =
     ((\<forall>x. scalar_mul T 1 x = x) \<and> (\<forall>x y. t_add T x (t_sub T y x) = y))"

section \<open>Calling a Python function with keyword arguments\<close>

text \<open>
  How Python binds the arguments of a call to a function that takes neither \<^verbatim>\<open>*args\<close>
  nor \<^verbatim>\<open>**kwargs\<close>: \<open>params\<close> are the names of its parameters in order, \<open>required\<close>
  those without a default, \<open>npos\<close> the number of positional arguments of the call and
  \<open>kws\<close> the keywords of the call in order. The keywords are bound first, and the
  first one that names no parameter, or a parameter a positional argument has filled,
  raises \<^verbatim>\<open>TypeError\<close> before the body runs. The texts of these two errors are
  Python's, with the keyword between single quotes (\<open>quoted\<close>); those of the other two
  are shortened.
\<close>

definition quoted :: "string \<Rightarrow> string" where
  "quoted s = CHR 0x27 # s @ [CHR 0x27]"

definition bind_call ::
  "string \<Rightarrow> string list \<Rightarrow> string list \<Rightarrow> nat \<Rightarrow> string list \<Rightarrow> error + unit" where
  "bind_call fname params required npos kws =
    (case filter (\<lambda>k. if k \<in> set params then k \<in> set (take npos params) else True) kws of
       k # _ \<Rightarrow>
         if k \<notin> set params
         then Inl (TypeError (fname @ ''() got an unexpected keyword argument '' @ quoted k))
         else Inl (TypeError (fname @ ''() got multiple values for argument '' @ quoted k))
     | [] \<Rightarrow>
         if length params < npos
         then Inl (TypeError (fname @ ''() takes too many positional arguments''))
         else (case filter (\<lambda>q. q \<notin> set (take npos params) \<and> q \<notin> set kws) required of
                 q # _ \<Rightarrow> Inl (TypeError (fname @ ''() missing a required argument '' @ q))
               | [] \<Rightarrow> Inr ()))"

text \<open>The parameters of \<^verbatim>\<open>generate\<close> after \<^verbatim>\<open>self\<close>; only \<^verbatim>\<open>prompt\<close> has no default.\<close>

definition generate_params :: "string list" where
  "generate_params = [''prompt'', ''height'', ''width'', ''num_inference_steps'',
     ''guidance_scale'', ''negative_prompt'', ''num_images_per_prompt'', ''eta'']"

definition call_generate ::
  "('t, 'g) torch \<Rightarrow> ('t, 'i) imaging \<Rightarrow> ('t, 'g, 's) stable_diffusion \<Rightarrow> nat \<Rightarrow>
   string list \<Rightarrow> gen_args \<Rightarrow> ('t, 'g, 's) world \<Rightarrow> (error + 'i list) \<times> ('t, 'g, 's) world" where
  "call_generate T P M npos kws a w =
    (case bind_call ''StableDiffusion.generate'' generate_params [''prompt''] npos kws of
       Inl e \<Rightarrow> (Inl e, w)
     | Inr _ \<Rightarrow> generate T P M a w)"

section \<open>build_stable_diffusion_model\<close>

text \<open>
  The model hub: one \<^verbatim>\<open>from_pretrained\<close> per class, from a model name and a
  subfolder to the artifact, and whether xformers is installed.
\<close>

record ('t, 'g, 's) hub =
  unet_from_pretrained :: "string \<Rightarrow> string \<Rightarrow> 't unet2d"
  vae_from_pretrained :: "string \<Rightarrow> string \<Rightarrow> ('t, 'g) autoencoder"
  text_encoder_from_pretrained :: "string \<Rightarrow> string \<Rightarrow> 't \<Rightarrow> 't"
  ddpm_from_pretrained :: "string \<Rightarrow> string \<Rightarrow> 't noise_scheduler"
  lms_from_pretrained :: "string \<Rightarrow> string \<Rightarrow> ('t, 's) inference_scheduler"
  tokenizer_from_pretrained :: "string \<Rightarrow> string \<Rightarrow> string list \<Rightarrow> bool \<Rightarrow> 't"
  is_xformers_available :: bool

text \<open>
  A request to the hub: the class, the model name and the subfolder (the pipeline is
  loaded without one).
\<close>

type_synonym request = "string \<times> string \<times> string option"

text \<open>
  The function returns the model; the second component is the list of the requests it
  made to the hub, in order. The pipeline is loaded and handed to the constructor, which
  stores it; no method of the class reads it.
\<close>

definition build_stable_diffusion_model ::
  "('t, 'g, 's) hub \<Rightarrow> string \<Rightarrow> bool \<Rightarrow> string \<Rightarrow> string \<Rightarrow>
   ('t, 'g, 's) stable_diffusion \<times> request list" where
  "build_stable_diffusion_model H model_name_or_path0 train_text_encoder ik ck =
    (let model_name_or_path = ''CompVis/stable-diffusion-v1-4'';
         unet0 = unet_from_pretrained H model_name_or_path ''unet'';
         unet1 = (if is_xformers_available H then unet0\<lparr>xformers_enabled := True\<rparr> else unet0);
         vae1 = vae_from_pretrained H model_name_or_path ''vae'';
         text_encoder1 = text_encoder_from_pretrained H model_name_or_path ''text_encoder'';
         noise_scheduler1 = ddpm_from_pretrained H model_name_or_path ''scheduler'';
         inference_scheduler1 = lms_from_pretrained H model_name_or_path ''scheduler'';
         tokenizer1 = tokenizer_from_pretrained H model_name_or_path ''tokenizer''
     in (StableDiffusion_init unet1 vae1 text_encoder1 tokenizer1 noise_scheduler1
           inference_scheduler1 train_text_encoder ik ck,
         [(''UNet2DConditionModel'', model_name_or_path, Some ''unet''),
          (''AutoencoderKL'', model_name_or_path, Some ''vae''),
          (''CLIPTextModel'', model_name_or_path, Some ''text_encoder''),
          (''DDPMScheduler'', model_name_or_path, Some ''scheduler''),
          (''LMSDiscreteScheduler'', model_name_or_path, Some ''scheduler''),
          (''CLIPTokenizer'', model_name_or_path, Some ''tokenizer''),
          (''StableDiffusionPipeline'', model_name_or_path, None)]))"

definition build_params :: "string list" where
  "build_params = [''model_name_or_path'', ''train_text_encoder'', ''image_key'', ''caption_key'']"

definition call_build_stable_diffusion_model ::
  "('t, 'g, 's) hub \<Rightarrow> string list \<Rightarrow> string \<Rightarrow> bool \<Rightarrow> string \<Rightarrow> string \<Rightarrow>
   error + ('t, 'g, 's) stable_diffusion \<times> request list" where
  "call_build_stable_diffusion_model H kws model_name_or_path train_text_encoder ik ck =
    (case bind_call ''build_stable_diffusion_model'' build_params [''model_name_or_path''] 0 kws of
       Inl e \<Rightarrow> Inl e
     | Inr _ \<Rightarrow> Inr (build_stable_diffusion_model H model_name_or_path train_text_encoder ik ck))"

section \<open>The training driver\<close>

text \<open>
  The configuration, with the nested sections \<^verbatim>\<open>model\<close>, \<^verbatim>\<open>dataset\<close> and
  \<^verbatim>\<open>optimizer\<close> flattened into prefixed fields. \<^verbatim>\<open>grad_accum\<close> is the string
  \<^verbatim>\<open>'auto'\<close> or an integer. \<^verbatim>\<open>main\<close> itself writes the two device batch sizes.
\<close>

datatype cfg_value = CStr string | CInt int

record config =
  seed :: int
  grad_accum :: cfg_value
  global_train_batch_size :: int
  global_eval_batch_size :: int
  train_device_batch_size :: int
  eval_device_batch_size :: int
  model_name :: string
  model_train_text_encoder :: bool
  model_train_unet :: bool
  model_num_images_per_prompt :: int
  model_image_key :: string
  model_caption_key :: string
  use_prior_preservation :: bool
  num_class_images :: int
  dataset_class_data_root :: string
  dataset_class_prompt :: string
  dataset_eval_prompts :: "string list"
  use_ema :: bool

text \<open>One batch of the prompt dataloader: the prompts and their indices.\<close>

record example =
  ex_prompt :: "string list"
  ex_index :: "int list"

text \<open>
  What \<^verbatim>\<open>main\<close> takes from its surroundings. \<^verbatim>\<open>calculate_batch_size_info\<close>
  (\<^verbatim>\<open>examples.common\<close>) and \<^verbatim>\<open>build_prompt_dataloader\<close> (\<^verbatim>\<open>data.py\<close>) are not
  among the source files and are parameters: the first gives the device batch size, the
  first component of its result, or raises; the second gives the batches of the
  dataloader in order. \<open>sha1_hexdigest\<close> is
  \<^verbatim>\<open>hashlib.sha1(image.tobytes()).hexdigest()\<close>.
\<close>

record ('t, 'g, 's, 'i) env =
  cuda_is_available :: bool
  world_size :: int
  calculate_batch_size_info :: "int \<Rightarrow> string \<Rightarrow> error + int"
  model_hub :: "('t, 'g, 's) hub"
  torch_lib :: "('t, 'g) torch"
  imaging_lib :: "('t, 'i) imaging"
  build_prompt_dataloader :: "string list \<Rightarrow> int \<Rightarrow> example list"
  to_pil_image :: "'i \<Rightarrow> 'i"
  sha1_hexdigest :: "'i \<Rightarrow> string"

text \<open>
  The stages of a run that leave a trace outside the process, in the order they
  happen, and the state of a run: the directories with their entries, the log of the
  stages, and the state of torch.
\<close>

datatype stage =
    SeedAll int
  | InitializeDist string
  | LoadPretrained request
  | MkDir string
  | BuildPromptDataloader "string list" int
  | SaveImage string
  | BuildDreamboothDataloader
  | BuildOptimizer
  | BuildTrainer
  | LogConfig
  | Fit

record ('t, 'g, 's) run =
  files :: "string \<rightharpoonup> string list"
  stages :: "stage list"
  tw :: "('t, 'g, 's) world"

text \<open>The decimal numeral of an integer, as an f-string prints it.\<close>

fun str_nat :: "nat \<Rightarrow> string" where
  "str_nat n =
     (if n < 10 then [char_of (48 + n)] else str_nat (n div 10) @ [char_of (48 + n mod 10)])"

definition str_int :: "int \<Rightarrow> string" where
  "str_int i = (if i < 0 then ''-'' @ str_nat (nat (- i)) else str_nat (nat i))"

text \<open>
  \<^verbatim>\<open>image.save(class_images_dir / name)\<close>: the file is created, or overwritten when
  the directory has an entry of that name.
\<close>

definition save_image :: "string \<Rightarrow> string \<Rightarrow> ('t, 'g, 's) run \<Rightarrow> ('t, 'g, 's) run" where
  "save_image d name r =
     (let entries = (case files r d of None \<Rightarrow> [] | Some es \<Rightarrow> es)
      in r\<lparr>files := (files r)(d \<mapsto> (if name \<in> set entries then entries else entries @ [name])),
           stages := stages r @ [SaveImage (d @ ''/'' @ name)]\<rparr>)"

text \<open>
  The inner loop \<^verbatim>\<open>for i, image in enumerate(images)\<close>, from position \<open>i\<close> on;
  \<^verbatim>\<open>example['index'][i]\<close> raises when the batch has no index \<open>i\<close>.
\<close>

fun save_images ::
  "('t, 'g, 's, 'i) env \<Rightarrow> string \<Rightarrow> int \<Rightarrow> int list \<Rightarrow> nat \<Rightarrow> 'i list \<Rightarrow>
   ('t, 'g, 's) run \<Rightarrow> (error + unit) \<times> ('t, 'g, 's) run" where
  "save_images E d cur_class_images index i [] r = (Inr (), r)"
| "save_images E d cur_class_images index i (image0 # images) r =
    (let image = to_pil_image E image0;
         hash_image = sha1_hexdigest E image
     in if i < length index
        then save_images E d cur_class_images index (Suc i) images
               (save_image d
                  (str_int (index ! i + cur_class_images) @ ''-'' @ hash_image @ ''.jpg'') r)
        else (Inl (IndexError ''list index out of range''), r))"

text \<open>
  The outer loop \<^verbatim>\<open>for example in tqdm(prompt_dataloader)\<close>. The call of
  \<^verbatim>\<open>model.generate\<close> has one positional argument and the keywords
  \<^verbatim>\<open>num_images_per_prompt\<close> and \<^verbatim>\<open>disable_progress_bar\<close>; the other arguments have
  their defaults.
\<close>

fun generate_class_images ::
  "('t, 'g, 's, 'i) env \<Rightarrow> ('t, 'g, 's) stable_diffusion \<Rightarrow> string \<Rightarrow> int \<Rightarrow> example list \<Rightarrow>
   ('t, 'g, 's) run \<Rightarrow> (error + unit) \<times> ('t, 'g, 's) run" where
  "generate_class_images E M d cur_class_images [] r = (Inr (), r)"
| "generate_class_images E M d cur_class_images (ex # exs) r =
    (let (res, w') =
           call_generate (torch_lib E) (imaging_lib E) M 1
             [''num_images_per_prompt'', ''disable_progress_bar'']
             \<lparr>prompt = ex_prompt ex, height = None, width = None, num_inference_steps = 50,
              guidance_scale = 75 / 10, negative_prompt = None, num_images_per_prompt = 1,
              eta = 1\<rparr> (tw r);
         r1 = r\<lparr>tw := w'\<rparr>
     in (case res of
           Inl e \<Rightarrow> (Inl e, r1)
         | Inr images \<Rightarrow>
             let (res2, r2) = save_images E d cur_class_images (ex_index ex) 0 images r1
             in (case res2 of
                   Inl e \<Rightarrow> (Inl e, r2)
                 | Inr _ \<Rightarrow> generate_class_images E M d cur_class_images exs r2)))"

text \<open>
  The block of \<^verbatim>\<open>main\<close> under \<^verbatim>\<open>if config.use_prior_preservation\<close>, as a function
  of the model that was built.
\<close>

definition prior_preservation ::
  "('t, 'g, 's, 'i) env \<Rightarrow> config \<Rightarrow> ('t, 'g, 's) stable_diffusion \<Rightarrow> ('t, 'g, 's) run \<Rightarrow>
   (error + unit) \<times> ('t, 'g, 's) run" where
  "prior_preservation E cfg M r =
    (if use_prior_preservation cfg then
       let class_images_dir = dataset_class_data_root cfg;
           r1 = (if files r class_images_dir = None
                 then r\<lparr>files := (files r)(class_images_dir \<mapsto> []),
                        stages := stages r @ [MkDir class_images_dir]\<rparr>
                 else r);
           cur_class_images =
             int (length (case files r1 class_images_dir of None \<Rightarrow> [] | Some es \<Rightarrow> es));
           images_to_generate = num_class_images cfg - cur_class_images
       in if cur_class_images < num_class_images cfg then
            let prompts = replicate (nat images_to_generate) (dataset_class_prompt cfg);
                prompt_dataloader =
                  build_prompt_dataloader E prompts (eval_device_batch_size cfg);
                r2 = r1\<lparr>stages := stages r1 @
                        [BuildPromptDataloader prompts (eval_device_batch_size cfg)]\<rparr>
            in generate_class_images E M class_images_dir cur_class_images prompt_dataloader r2
          else (Inr (), r1)
     else (Inr (), r))"

text \<open>
  The rest of \<^verbatim>\<open>main\<close>, from the dataloaders to \<^verbatim>\<open>trainer.fit()\<close>: calls into the
  training framework, of which the model keeps the order.
\<close>

definition training :: "config \<Rightarrow> ('t, 'g, 's) run \<Rightarrow> (error + unit) \<times> ('t, 'g, 's) run" where
  "training cfg r =
     (Inr (), r\<lparr>stages := stages r @
        [BuildDreamboothDataloader,
         BuildPromptDataloader (dataset_eval_prompts cfg) (eval_device_batch_size cfg),
         BuildOptimizer, BuildTrainer, LogConfig, Fit]\<rparr>)"

definition grad_accum_message :: string where
  "grad_accum_message =
     ''grad_accum='' @ [CHR 0x22] @ ''auto'' @ [CHR 0x22] @
     '' requires training with a GPU; please specify grad_accum as an integer''"

text \<open>The two errors the calls with keywords end in.\<close>

definition build_type_error :: error where
  "build_type_error = TypeError
     (''build_stable_diffusion_model() got an unexpected keyword argument '' @ quoted ''train_unet'')"

definition generate_type_error :: error where
  "generate_type_error = TypeError
     (''StableDiffusion.generate() got an unexpected keyword argument '' @
      quoted ''disable_progress_bar'')"

definition main_build_keywords :: "string list" where
  "main_build_keywords = [''model_name_or_path'', ''train_text_encoder'', ''train_unet'',
     ''num_images_per_prompt'', ''image_key'', ''caption_key'']"

definition main ::
  "('t, 'g, 's, 'i) env \<Rightarrow> config \<Rightarrow> ('t, 'g, 's) run \<Rightarrow> (error + unit) \<times> ('t, 'g, 's) run" where
  "main E config0 r0 =
    (let r1 = r0\<lparr>stages := stages r0 @ [SeedAll (seed config0)]\<rparr>;
         device = (if cuda_is_available E then ''gpu'' else ''cpu'');
         r2 = (if world_size E > 1 then r1\<lparr>stages := stages r1 @ [InitializeDist device]\<rparr>
               else r1)
     in if grad_accum config0 = CStr ''auto'' \<and> device = ''cpu''
        then (Inl (ValueError grad_accum_message), r2)
        else
         (case calculate_batch_size_info E (global_train_batch_size config0) ''auto'' of
            Inl e \<Rightarrow> (Inl e, r2)
          | Inr tb \<Rightarrow>
         (case calculate_batch_size_info E (global_eval_batch_size config0) ''auto'' of
            Inl e \<Rightarrow> (Inl e, r2)
          | Inr eb \<Rightarrow>
            let cfg = config0\<lparr>train_device_batch_size := tb, eval_device_batch_size := eb\<rparr>
            in (case call_build_stable_diffusion_model (model_hub E) main_build_keywords
                       (model_name cfg) (model_train_text_encoder cfg)
                       (model_image_key cfg) (model_caption_key cfg) of
                  Inl e \<Rightarrow> (Inl e, r2)
                | Inr (model, requests) \<Rightarrow>
                    let r3 = r2\<lparr>stages := stages r2 @ map LoadPretrained requests\<rparr>;
                        (res, r4) = prior_preservation E cfg model r3
                    in (case res of
                          Inl e \<Rightarrow> (Inl e, r4)
                        | Inr _ \<Rightarrow> training cfg r4)))))"

section \<open>Example values\<close>

text \<open>
  A small instance of the libraries and of the model, with integers for tensors, for
  the generator and for images, used where a theorem is applied to concrete values.
\<close>

definition ex_torch :: "(int, int) torch" where
  "ex_torch = \<lparr>manual_seed = (\<lambda>n. n), randn = (\<lambda>shape g. (g, g + 1)),
     randn_like = (\<lambda>t g. (g + t, g + 1)), randint = (\<lambda>lo hi shape g. (lo, g + 1)),
     shape0 = (\<lambda>t. 1), cat = sum_list, chunk = (\<lambda>t n. [t, t + 1]),
     t_add = (+), t_sub = (-), t_mul = (*), scalar_mul = (\<lambda>r t. \<lfloor>r\<rfloor> * t),
     scalar_div = (\<lambda>t r. t div \<lfloor>r\<rfloor>), scalar_add = (\<lambda>t r. t + \<lfloor>r\<rfloor>),
     clamp = (\<lambda>t lo hi. max \<lfloor>lo\<rfloor> (min \<lfloor>hi\<rfloor> t))\<rparr>"

definition ex_model :: "string \<Rightarrow> (int, int, nat) stable_diffusion" where
  "ex_model pt = StableDiffusion_init
     \<lparr>unet_forward = (\<lambda>x t e. x + t + e), in_channels = 4, sample_size = 64,
      xformers_enabled = False\<rparr>
     \<lparr>encode_sample = (\<lambda>x g. (x + g, g + 1)), decode = (\<lambda>z. z)\<rparr>
     (\<lambda>ids. ids + 1)
     (\<lambda>ps trunc. int (length ps))
     \<lparr>prediction_type = pt, scheduler_len = 1000, add_noise = (\<lambda>l n t. l + n),
      get_velocity = (\<lambda>l n t. n - l)\<rparr>
     \<lparr>set_timesteps = (\<lambda>n s. nat n), timesteps = (\<lambda>s. map int (rev [0..<s])),
      init_noise_sigma = (\<lambda>s. 1), scale_model_input = (\<lambda>s x t. (x, s)),
      step = (\<lambda>s p t l. (l - p, s))\<rparr>
     False ''image_tensor'' ''input_ids''"

definition ex_world :: "(int, int, nat) world" where
  "ex_world = \<lparr>rng = 7, sched = 0, calls = []\<rparr>"

definition ex_batch :: "string \<rightharpoonup> int" where
  "ex_batch = [''image_tensor'' \<mapsto> 3, ''input_ids'' \<mapsto> 5]"


definition ex_imaging :: "(int, int) imaging" where
  "ex_imaging = \<lparr>to_numpy_nhwc = (\<lambda>t. t), np_scalar_mul = (\<lambda>t r. t * \<lfloor>r\<rfloor>),
     round_uint8 = (\<lambda>t. t mod 256), rows = (\<lambda>t. [t]), fromarray = (\<lambda>t. t)\<rparr>"

definition ex_hub :: "(int, int, nat) hub" where
  "ex_hub = \<lparr>unet_from_pretrained = (\<lambda>n sf. unet (ex_model ''epsilon'')),
     vae_from_pretrained = (\<lambda>n sf. vae (ex_model ''epsilon'')),
     text_encoder_from_pretrained = (\<lambda>n sf. text_encoder (ex_model ''epsilon'')),
     ddpm_from_pretrained = (\<lambda>n sf. noise_scheduler (ex_model ''epsilon'')),
     lms_from_pretrained = (\<lambda>n sf. inference_scheduler (ex_model ''epsilon'')),
     tokenizer_from_pretrained = (\<lambda>n sf. tokenizer (ex_model ''epsilon'')),
     is_xformers_available = False\<rparr>"

definition ex_env :: "(int, int, nat, int) env" where
  "ex_env = \<lparr>cuda_is_available = False, world_size = 1,
     calculate_batch_size_info = (\<lambda>n m. Inr n), model_hub = ex_hub, torch_lib = ex_torch,
     imaging_lib = ex_imaging,
     build_prompt_dataloader = (\<lambda>ps bs. [\<lparr>ex_prompt = ps, ex_index = map int [0..<length ps]\<rparr>]),
     to_pil_image = (\<lambda>i. i), sha1_hexdigest = (\<lambda>i. str_int i)\<rparr>"

definition ex_config :: config where
  "ex_config = \<lparr>seed = 17, grad_accum = CInt 1, global_train_batch_size = 4,
     global_eval_batch_size = 4, train_device_batch_size = 0, eval_device_batch_size = 0,
     model_name = ''stabilityai/stable-diffusion-2-1'', model_train_text_encoder = False,
     model_train_unet = True, model_num_images_per_prompt = 1,
     model_image_key = ''image_tensor'', model_caption_key = ''input_ids'',
     use_prior_preservation = True, num_class_images = 2,
     dataset_class_data_root = ''class_images'', dataset_class_prompt = ''a photo of a dog'',
     dataset_eval_prompts = [''a photo of sks dog''], use_ema = False\<rparr>"

definition ex_run :: "(int, int, nat) run" where
  "ex_run = \<lparr>files = [''class_images'' \<mapsto> []], stages = [], tw = ex_world\<rparr>"

definition ex_args :: gen_args where
  "ex_args = \<lparr>prompt = [''a photo of a dog''], height = Some 64, width = Some 64,
     num_inference_steps = 2, guidance_scale = 2, negative_prompt = None,
     num_images_per_prompt = 1, eta = 1\<rparr>"

definition ex_args_unit :: gen_args where
  "ex_args_unit = ex_args\<lparr>guidance_scale := 1\<rparr>"

subsection \<open>A library that rounds as binary32 does\<close>

text \<open>
  \<^verbatim>\<open>torch.float32\<close> keeps 24 significant bits and rounds to nearest, ties to even.
  \<open>f32 x\<close> is the binary32 number nearest to the integer \<open>x\<close> (overflow, beyond
  \<open>2 ^ 128\<close>, is not modelled): \<open>x\<close> itself when it has at most 24 bits, else \<open>x\<close>
  rounded to a multiple of the weight \<open>q\<close> of its 24th bit from the top.
\<close>

fun bitlen :: "nat \<Rightarrow> nat" where
  "bitlen n = (if n = 0 then 0 else Suc (bitlen (n div 2)))"

definition round_half_even :: "nat \<Rightarrow> nat \<Rightarrow> nat" where
  "round_half_even m q =
     (let d = m div q; r = m mod q
      in if 2 * r < q then d else if q < 2 * r then d + 1 else if even d then d else d + 1)"

definition f32 :: "int \<Rightarrow> int" where
  "f32 x =
     (let m = nat \<bar>x\<bar>; e = bitlen m
      in if e \<le> 24 then x
         else let q = 2 ^ (e - 24) in sgn x * int (q * round_half_even m q))"

text \<open>
  \<^verbatim>\<open>torch.chunk\<close> along the first axis: pieces of \<open>k\<close> elements, the last one shorter.
\<close>

function chunks_of :: "nat \<Rightarrow> 'a list \<Rightarrow> 'a list list" where
  "chunks_of k xs =
     (if k = 0 \<or> xs = [] then [] else take k xs # chunks_of k (drop k xs))"
  by pat_completeness auto
termination
  by (relation "measure (\<lambda>(k, xs). length xs)") auto

text \<open>
  Tensors are lists of integer-valued binary32 numbers, one per element of the first
  axis. Sums, differences and products are rounded by \<open>f32\<close>, which is what binary32
  does wherever the exact result is an integer; \<open>cat\<close> and \<open>chunk\<close> are those of torch
  on the first axis. The draws are zeros, and the operations with a scalar round the
  scalar result down to an integer first, which is exact for the scalar 1.
\<close>

definition f32_torch :: "(int list, nat) torch" where
  "f32_torch = \<lparr>manual_seed = nat,
     randn = (\<lambda>shape g. (replicate (nat (prod_list shape)) 0, Suc g)),
     randn_like = (\<lambda>t g. (map (\<lambda>a. 0) t, Suc g)),
     randint = (\<lambda>lo hi shape g. (replicate (nat (prod_list shape)) lo, Suc g)),
     shape0 = (\<lambda>t. int (length t)),
     cat = concat,
     chunk = (\<lambda>t n. chunks_of ((length t + nat n - 1) div nat n) t),
     t_add = map2 (\<lambda>a b. f32 (a + b)),
     t_sub = map2 (\<lambda>a b. f32 (a - b)),
     t_mul = map2 (\<lambda>a b. f32 (a * b)),
     scalar_mul = (\<lambda>r. map (\<lambda>a. f32 \<lfloor>r * of_int a\<rfloor>)),
     scalar_div = (\<lambda>t r. map (\<lambda>a. f32 \<lfloor>of_int a / r\<rfloor>) t),
     scalar_add = (\<lambda>t r. map (\<lambda>a. f32 \<lfloor>of_int a + r\<rfloor>) t),
     clamp = (\<lambda>t lo hi. map (\<lambda>a. max \<lfloor>lo\<rfloor> (min \<lfloor>hi\<rfloor> a)) t)\<rparr>"

definition f32_imaging :: "(int list, int) imaging" where
  "f32_imaging = \<lparr>to_numpy_nhwc = (\<lambda>t. t), np_scalar_mul = (\<lambda>t r. map (\<lambda>a. \<lfloor>of_int a * r\<rfloor>) t),
     round_uint8 = map (\<lambda>a. a mod 256), rows = map (\<lambda>a. [a]), fromarray = sum_list\<rparr>"

text \<open>
  A model on that library whose network predicts, for the batch of two it is given,
  the unconditional value \<open>2 ^ 25\<close> and the conditional value \<open>1\<close> (in binary32 the
  same happens at any scale: at \<open>1\<close> and \<open>2 ^ -25\<close>, say).
\<close>

definition f32_model :: "(int list, nat, nat) stable_diffusion" where
  "f32_model = StableDiffusion_init
     \<lparr>unet_forward = (\<lambda>x t e. [33554432, 1]), in_channels = 1, sample_size = 8,
      xformers_enabled = False\<rparr>
     \<lparr>encode_sample = (\<lambda>x g. (x, Suc g)), decode = (\<lambda>z. z)\<rparr>
     (\<lambda>ids. ids)
     (\<lambda>ps trunc. map (\<lambda>p. 0) ps)
     \<lparr>prediction_type = ''epsilon'', scheduler_len = 1000,
      add_noise = (\<lambda>l n t. map2 (\<lambda>a b. f32 (a + b)) l n),
      get_velocity = (\<lambda>l n t. map2 (\<lambda>a b. f32 (a - b)) n l)\<rparr>
     \<lparr>set_timesteps = (\<lambda>n s. nat n), timesteps = (\<lambda>s. map (\<lambda>k. [int k]) (rev [0..<s])),
      init_noise_sigma = (\<lambda>s. [1]), scale_model_input = (\<lambda>s x t. (x, s)),
      step = (\<lambda>s p t l. (map2 (\<lambda>a b. f32 (a - b)) l p, s))\<rparr>
     False ''image_tensor'' ''input_ids''"

definition f32_args :: gen_args where
  "f32_args = \<lparr>prompt = [''a photo of a dog''], height = Some 8, width = Some 8,
     num_inference_steps = 1, guidance_scale = 1, negative_prompt = None,
     num_images_per_prompt = 1, eta = 1\<rparr>"

definition f32_world :: "(int list, nat, nat) world" where
  "f32_world = \<lparr>rng = 0, sched = 0, calls = []\<rparr>"

section \<open>Properties of forward\<close>

text \<open>
  C1. When the prediction type of the training schedule is neither \<open>epsilon\<close> nor
  \<open>v_prediction\<close>, \<^verbatim>\<open>forward\<close> raises on every batch and its call log gains no call of
  the denoising network; on a batch that holds the image and the caption, the exception
  is the \<^verbatim>\<open>ValueError\<close> naming the prediction type.
\<close>

theorem forward_unknown_prediction_type:
  assumes "prediction_type (noise_scheduler M) \<noteq> ''epsilon''"
      and "prediction_type (noise_scheduler M) \<noteq> ''v_prediction''"
  shows "(\<exists>e. fst (forward T M batch w) = Inl e) \<and>
         filter is_unet_call (calls (snd (forward T M batch w))) = filter is_unet_call (calls w) \<and>
         (batch (image_key M) \<noteq> None \<and> batch (caption_key M) \<noteq> None \<longrightarrow>
            fst (forward T M batch w) =
              Inl (ValueError (''Unknown prediction type '' @ prediction_type (noise_scheduler M))))"
  using assms
  by (auto simp: forward_def Let_def is_unet_call_def split: option.splits prod.splits)

theorem forward_unknown_prediction_type_witness:
  "prediction_type (noise_scheduler (ex_model ''sample'')) \<noteq> ''epsilon'' \<and>
   prediction_type (noise_scheduler (ex_model ''sample'')) \<noteq> ''v_prediction'' \<and>
   ex_batch (image_key (ex_model ''sample'')) \<noteq> None \<and>
   ex_batch (caption_key (ex_model ''sample'')) \<noteq> None \<and>
   fst (forward ex_torch (ex_model ''sample'') ex_batch ex_world) =
     Inl (ValueError ''Unknown prediction type sample'') \<and>
   filter is_unet_call (calls (snd (forward ex_torch (ex_model ''sample'') ex_batch ex_world))) = []"
proof -
  have a: "prediction_type (noise_scheduler (ex_model ''sample'')) \<noteq> ''epsilon''"
    and b: "prediction_type (noise_scheduler (ex_model ''sample'')) \<noteq> ''v_prediction''"
    and p: "prediction_type (noise_scheduler (ex_model ''sample'')) = ''sample''"
    by (simp_all add: ex_model_def StableDiffusion_init_def)
  have k: "ex_batch (image_key (ex_model ''sample'')) \<noteq> None"
          "ex_batch (caption_key (ex_model ''sample'')) \<noteq> None"
    by (simp_all add: ex_model_def StableDiffusion_init_def ex_batch_def)
  have c: "calls ex_world = []" by (simp add: ex_world_def)
  show ?thesis
    using forward_unknown_prediction_type[OF a b, of ex_torch ex_batch ex_world] a b k c p
    by simp
qed


text \<open>
  C2. When the prediction type is \<open>epsilon\<close>, \<^verbatim>\<open>forward\<close> on a batch that holds the
  image and the caption returns, as the second component, the very tensor that
  \<^verbatim>\<open>randn_like\<close> drew and that was handed to \<^verbatim>\<open>add_noise\<close>.
\<close>

theorem forward_epsilon_target:
  assumes "prediction_type (noise_scheduler M) = ''epsilon''"
      and "batch (image_key M) = Some inputs"
      and "batch (caption_key M) = Some ids"
  shows "let latents = scalar_mul T (18215 / 100000) (fst (encode_sample (vae M) inputs (rng w)));
             g1 = snd (encode_sample (vae M) inputs (rng w));
             (timesteps, g2) = randint T 0 (scheduler_len (noise_scheduler M)) [shape0 T latents] g1;
             noise = fst (randn_like T latents g2);
             noised = add_noise (noise_scheduler M) latents noise timesteps
         in fst (forward T M batch w) =
              Inr (unet_forward (unet M) noised timesteps (text_encoder M ids), noise) \<and>
            calls (snd (forward T M batch w)) =
              calls w @ [AddNoiseCall latents noise timesteps,
                         UnetCall noised timesteps (text_encoder M ids)]"
  using assms
  by (auto simp: forward_def Let_def split: option.splits prod.splits)

theorem forward_epsilon_target_witness:
  "prediction_type (noise_scheduler (ex_model ''epsilon'')) = ''epsilon'' \<and>
   ex_batch (image_key (ex_model ''epsilon'')) = Some 3 \<and>
   ex_batch (caption_key (ex_model ''epsilon'')) = Some 5 \<and>
   fst (forward ex_torch (ex_model ''epsilon'') ex_batch ex_world) = Inr (15, 9) \<and>
   calls (snd (forward ex_torch (ex_model ''epsilon'') ex_batch ex_world)) =
     [AddNoiseCall 0 9 0, UnetCall 9 0 6]"
proof -
  have a: "prediction_type (noise_scheduler (ex_model ''epsilon'')) = ''epsilon''"
    by (simp add: ex_model_def StableDiffusion_init_def)
  have k: "ex_batch (image_key (ex_model ''epsilon'')) = Some 3"
          "ex_batch (caption_key (ex_model ''epsilon'')) = Some 5"
    by (simp_all add: ex_model_def StableDiffusion_init_def ex_batch_def)
  show ?thesis
    using forward_epsilon_target[OF a k, of ex_torch ex_world] a k
    by (simp add: ex_model_def StableDiffusion_init_def ex_torch_def ex_world_def Let_def)
qed


section \<open>Properties of generate\<close>

text \<open>
  The calls a run of the loop adds to the log are, for each timestep in order, a network
  call and a step that satisfy \<open>guided_calls\<close>; a call of \<^verbatim>\<open>generate\<close> adds the
  calls of its loop, or none when it does not reach the loop.
\<close>

lemma py_or_default_size:
  "py_or v (default_size M) = Inr n \<longleftrightarrow> v = Some n \<and> n \<noteq> 0"
  by (auto simp: py_or_def default_size_def vae_scale_factor_def split: option.splits)

lemma denoise_calls:
  "\<exists>cs. calls (snd (denoise T M gs emb ts l w)) = calls w @ cs \<and>
        guided_calls T M gs emb (sched w) ts cs"
proof (induction ts arbitrary: l w)
  case Nil
  show ?case by (simp add: guided_calls_def)
next
  case (Cons t ts)
  obtain x s1 where
    sc: "scale_model_input (inference_scheduler M) (sched w) (cat T [l, l]) t = (x, s1)"
    by (cases "scale_model_input (inference_scheduler M) (sched w) (cat T [l, l]) t")
  let ?w1 = "w\<lparr>sched := s1, calls := calls w @ [UnetCall x t emb]\<rparr>"
  show ?case
  proof (cases "\<exists>u c. chunk T (unet_forward (unet M) x t emb) 2 = [u, c]")
    case True
    then obtain u c where ch: "chunk T (unet_forward (unet M) x t emb) 2 = [u, c]"
      by blast
    let ?p = "t_add T u (scalar_mul T gs (t_sub T c u))"
    obtain l' s2 where st: "step (inference_scheduler M) s1 ?p t l = (l', s2)"
      by (cases "step (inference_scheduler M) s1 ?p t l")
    let ?w2 = "?w1\<lparr>sched := s2, calls := calls ?w1 @ [StepCall ?p t l]\<rparr>"
    have d: "denoise T M gs emb (t # ts) l w = denoise T M gs emb ts l' ?w2"
      using sc ch st by (simp add: Let_def)
    from Cons.IH[of l' ?w2] obtain cs where
      cs: "calls (snd (denoise T M gs emb ts l' ?w2)) = calls ?w2 @ cs"
          "guided_calls T M gs emb s2 ts cs"
      by auto
    have "calls (snd (denoise T M gs emb (t # ts) l w)) =
            calls w @ (UnetCall x t emb # StepCall ?p t l # cs)"
      using d cs(1) by simp
    moreover have "guided_calls T M gs emb (sched w) (t # ts)
                     (UnetCall x t emb # StepCall ?p t l # cs)"
      using sc ch st cs(2) by (simp add: guided_calls_def guided_prediction_def)
    ultimately show ?thesis by blast
  next
    case False
    have d: "denoise T M gs emb (t # ts) l w =
               (Inl (ValueError ''not enough values to unpack (expected 2)''), ?w1)"
      using sc False by (auto simp: Let_def split: list.splits)
    have "guided_calls T M gs emb (sched w) (t # ts) [UnetCall x t emb]"
      using False by (auto simp: guided_calls_def split: list.splits)
    then show ?thesis using d by simp
  qed
qed

lemma generate_snd:
  assumes "py_or (height a) (default_size M) = Inr h" "py_or (width a) (default_size M) = Inr wd"
  shows "snd (generate T P M a w) =
     snd (denoise T M (guidance_scale a) (cfg_embeddings T M (prompt a))
       (timesteps (inference_scheduler M)
          (set_timesteps (inference_scheduler M) (num_inference_steps a) (sched w)))
       (t_mul T (fst (randn T [1, in_channels (unet M), h div 8, wd div 8] (manual_seed T 32)))
          (init_noise_sigma (inference_scheduler M)
             (set_timesteps (inference_scheduler M) (num_inference_steps a) (sched w))))
       (w\<lparr>rng := snd (randn T [1, in_channels (unet M), h div 8, wd div 8] (manual_seed T 32)),
          sched := set_timesteps (inference_scheduler M) (num_inference_steps a) (sched w)\<rparr>))"
  using assms
  by (simp add: generate_def Let_def cfg_embeddings_def split: prod.splits sum.splits)

lemma generate_not_given:
  assumes "\<not> sizes_given a"
  shows "snd (generate T P M a w) = w"
proof (cases "py_or (height a) (default_size M)")
  case (Inl e)
  then show ?thesis by (simp add: generate_def)
next
  case h: (Inr h)
  then have hh: "height a = Some h" "h \<noteq> 0" by (simp_all add: py_or_default_size)
  have "\<nexists>wd. py_or (width a) (default_size M) = Inr wd"
    using assms hh by (auto simp: py_or_default_size sizes_given_def split: option.splits)
  then obtain e where "py_or (width a) (default_size M) = Inl e"
    by (cases "py_or (width a) (default_size M)") auto
  then show ?thesis using h by (simp add: generate_def)
qed

lemma generate_calls:
  "\<exists>cs. calls (snd (generate T P M a w)) = calls w @ cs \<and>
     (if sizes_given a
      then guided_calls T M (guidance_scale a) (cfg_embeddings T M (prompt a))
             (set_timesteps (inference_scheduler M) (num_inference_steps a) (sched w))
             (timesteps (inference_scheduler M)
                (set_timesteps (inference_scheduler M) (num_inference_steps a) (sched w))) cs
      else cs = [])"
proof (cases "sizes_given a")
  case False
  then show ?thesis by (simp add: generate_not_given)
next
  case True
  then obtain h wd where hw: "height a = Some h" "h \<noteq> 0" "width a = Some wd" "wd \<noteq> 0"
    by (auto simp: sizes_given_def split: option.splits)
  have p: "py_or (height a) (default_size M) = Inr h" "py_or (width a) (default_size M) = Inr wd"
    using hw by (simp_all add: py_or_default_size)
  let ?s1 = "set_timesteps (inference_scheduler M) (num_inference_steps a) (sched w)"
  let ?w1 = "w\<lparr>rng := snd (randn T [1, in_channels (unet M), h div 8, wd div 8]
                           (manual_seed T 32)), sched := ?s1\<rparr>"
  show ?thesis
    unfolding generate_snd[OF p]
    using True denoise_calls[of T M "guidance_scale a" "cfg_embeddings T M (prompt a)" _ _ ?w1]
    by simp
qed

lemma paired_calls_complete:
  "(\<And>x. \<exists>u c. chunk T x 2 = [u, c]) \<Longrightarrow> paired_calls T M pred emb s ts cs \<Longrightarrow>
   length cs = 2 * length ts"
proof (induction T M pred emb s ts cs rule: paired_calls.induct)
  case (2 T M pred emb s t ts x t' e p t'' l cs)
  then show ?case by (auto simp: Let_def split: prod.splits list.splits)
next
  case (3 T M pred emb s t ts x t' e)
  from "3.prems"(1)[of "unet_forward (unet M) x t e"] "3.prems"(2)
  show ?case by (auto split: list.splits)
qed auto

text \<open>
  C3. The calls \<^verbatim>\<open>generate\<close> adds to the log are those of its loop: for each
  timestep of the schedule, in order, one call of the network at that timestep on the
  scaled duplicate of the latents, then the schedule's step at that timestep with
  \<open>uncond + guidance_scale * (cond - uncond)\<close>, where \<open>uncond\<close> and \<open>cond\<close> are the
  two chunks of what that one network call returned; the log stops early only at a
  network call whose result does not split in two. A call that does not reach the loop
  (\<^verbatim>\<open>height\<close> or \<^verbatim>\<open>width\<close> missing or zero) adds nothing.
\<close>

theorem generate_guided_prediction:
  "\<exists>cs. calls (snd (generate T P M a w)) = calls w @ cs \<and>
     (if sizes_given a
      then guided_calls T M (guidance_scale a) (cfg_embeddings T M (prompt a))
             (set_timesteps (inference_scheduler M) (num_inference_steps a) (sched w))
             (timesteps (inference_scheduler M)
                (set_timesteps (inference_scheduler M) (num_inference_steps a) (sched w))) cs
      else cs = [])"
  by (rule generate_calls)

theorem generate_guided_prediction_witness:
  "sizes_given ex_args \<and>
   calls (snd (generate ex_torch ex_imaging (ex_model ''epsilon'') ex_args ex_world)) =
     [UnetCall 64 1 4, StepCall 71 1 32, UnetCall (- 78) 0 4, StepCall (- 72) 0 (- 39)] \<and>
   guided_calls ex_torch (ex_model ''epsilon'') 2 4 2 [1, 0]
     [UnetCall 64 1 4, StepCall 71 1 32, UnetCall (- 78) 0 4, StepCall (- 72) 0 (- 39)]"
proof -
  have c: "sizes_given ex_args"
    by (simp add: sizes_given_def ex_args_def)
  have d: "calls (snd (generate ex_torch ex_imaging (ex_model ''epsilon'') ex_args ex_world)) =
     [UnetCall 64 1 4, StepCall 71 1 32, UnetCall (- 78) 0 4, StepCall (- 72) 0 (- 39)]"
    by (simp add: generate_def ex_torch_def ex_imaging_def ex_model_def StableDiffusion_init_def
        ex_args_def ex_world_def py_or_def Let_def upt_rec)
  have e: "cfg_embeddings ex_torch (ex_model ''epsilon'') (prompt ex_args) = 4"
    "set_timesteps (inference_scheduler (ex_model ''epsilon''))
       (num_inference_steps ex_args) (sched ex_world) = 2"
    "timesteps (inference_scheduler (ex_model ''epsilon'')) 2 = [1, 0]"
    "calls ex_world = []" "guidance_scale ex_args = 2"
    by (simp_all add: cfg_embeddings_def ex_torch_def ex_model_def StableDiffusion_init_def
        ex_args_def ex_world_def upt_rec)
  show ?thesis
    using generate_guided_prediction[of ex_torch ex_imaging "ex_model ''epsilon''" ex_args ex_world] c d e
    by simp
qed

text \<open>
  A run of two steps on the example values: two network calls and two steps, and one
  image.
\<close>

lemma floor_inverse_scale: "\<lfloor>1 / (18215 / 100000 :: real)\<rfloor> = 5"
  by (simp add: floor_eq_iff)

lemma generate_example:
  "generate ex_torch ex_imaging (ex_model ''epsilon'') ex_args ex_world =
     (Inr [255], \<lparr>rng = 33, sched = 2,
        calls = [UnetCall 64 1 4, StepCall 71 1 32, UnetCall (- 78) 0 4, StepCall (- 72) 0 (- 39)]\<rparr>)"
  by (simp add: generate_def ex_torch_def ex_imaging_def ex_model_def StableDiffusion_init_def
      ex_args_def ex_world_def py_or_def Let_def upt_rec floor_inverse_scale)

lemma guided_calls_example:
  "guided_calls ex_torch (ex_model ''epsilon'') 2 4 2 [1, 0]
     [UnetCall 64 1 4, StepCall 71 1 32, UnetCall (- 78) 0 4, StepCall (- 72) 0 (- 39)] \<and>
   \<not> guided_calls ex_torch (ex_model ''epsilon'') 2 4 2 [1, 0] [] \<and>
   \<not> guided_calls ex_torch (ex_model ''epsilon'') 2 4 2 [1, 0]
       [UnetCall 64 1 4, StepCall 71 1 32]"
  by (simp add: guided_calls_def guided_prediction_def ex_torch_def ex_model_def
      StableDiffusion_init_def)

text \<open>
  With scale 1 on a library that computes without rounding error, the guided prediction
  is the conditional chunk, and the loop is the loop without guidance.
\<close>

lemma guided_prediction_unit:
  assumes "exact_cancellation T"
  shows "guided_prediction T 1 = (\<lambda>uncond cond. cond)"
  using assms by (auto simp: exact_cancellation_def guided_prediction_def fun_eq_iff)

lemma denoise_unit:
  assumes "exact_cancellation T"
  shows "denoise T M 1 emb ts l w = denoise_unguided T M emb ts l w"
proof (induction ts arbitrary: l w)
  case Nil
  show ?case by simp
next
  case (Cons t ts)
  have e: "\<And>u c. t_add T u (scalar_mul T 1 (t_sub T c u)) = c"
    using assms by (simp add: exact_cancellation_def)
  show ?case
    by (simp add: Let_def e Cons.IH split: prod.splits list.splits)
qed

text \<open>The values of \<open>f32\<close> the binary32 run goes through, and the calls of that run.\<close>

lemma bitlen_25: "bitlen 33554431 = 25"
  by simp

lemma bitlen_26: "bitlen 33554432 = 26"
  by simp

lemma f32_values:
  "f32 0 = 0" "f32 (- 33554431) = - 33554432" "f32 (- 33554432) = - 33554432"
  by (simp_all add: f32_def Let_def round_half_even_def bitlen_25 bitlen_26)

lemma f32_generate:
  "calls (snd (generate f32_torch f32_imaging f32_model f32_args f32_world)) =
     [UnetCall [0, 0] [0] [0, 0], StepCall [0] [0] [0]]"
  by (simp add: generate_def f32_torch_def f32_model_def StableDiffusion_init_def
      f32_args_def f32_world_def py_or_def Let_def f32_values)

text \<open>
  C4. With \<^verbatim>\<open>guidance_scale = 1\<close> the code still computes
  \<open>uncond + 1 * (cond - uncond)\<close>. On a library that computes it without rounding
  error, the step gets the conditional chunk alone at every timestep, and the loop is
  the loop without guidance.
\<close>

theorem generate_unit_guidance:
  assumes "guidance_scale a = 1" and "exact_cancellation T"
  shows "(\<exists>cs. calls (snd (generate T P M a w)) = calls w @ cs \<and>
           (if sizes_given a
            then paired_calls T M (\<lambda>uncond cond. cond) (cfg_embeddings T M (prompt a))
                   (set_timesteps (inference_scheduler M) (num_inference_steps a) (sched w))
                   (timesteps (inference_scheduler M)
                      (set_timesteps (inference_scheduler M) (num_inference_steps a) (sched w))) cs
            else cs = [])) \<and>
         (\<forall>emb ts l w'. denoise T M (guidance_scale a) emb ts l w' =
                          denoise_unguided T M emb ts l w')"
proof -
  have g: "guided_calls T M (guidance_scale a) = paired_calls T M (\<lambda>uncond cond. cond)"
    using assms by (simp add: guided_calls_def guided_prediction_unit)
  have "\<forall>emb ts l w'. denoise T M (guidance_scale a) emb ts l w' =
                        denoise_unguided T M emb ts l w'"
    using assms by (simp add: denoise_unit)
  then show ?thesis
    using generate_calls[of T P M a w] unfolding g by blast
qed

theorem generate_unit_guidance_witness:
  "guidance_scale ex_args_unit = 1 \<and> exact_cancellation ex_torch \<and> sizes_given ex_args_unit \<and>
   calls (snd (generate ex_torch ex_imaging (ex_model ''epsilon'') ex_args_unit ex_world)) =
     [UnetCall 64 1 4, StepCall 70 1 32, UnetCall (- 76) 0 4, StepCall (- 71) 0 (- 38)] \<and>
   paired_calls ex_torch (ex_model ''epsilon'') (\<lambda>uncond cond. cond) 4 2 [1, 0]
     [UnetCall 64 1 4, StepCall 70 1 32, UnetCall (- 76) 0 4, StepCall (- 71) 0 (- 38)]"
proof -
  have a: "guidance_scale ex_args_unit = 1"
    by (simp add: ex_args_unit_def)
  have b: "exact_cancellation ex_torch"
    by (simp add: exact_cancellation_def ex_torch_def)
  have c: "sizes_given ex_args_unit"
    by (simp add: sizes_given_def ex_args_unit_def ex_args_def)
  have d: "calls (snd (generate ex_torch ex_imaging (ex_model ''epsilon'') ex_args_unit ex_world)) =
     [UnetCall 64 1 4, StepCall 70 1 32, UnetCall (- 76) 0 4, StepCall (- 71) 0 (- 38)]"
    by (simp add: generate_def ex_torch_def ex_imaging_def ex_model_def StableDiffusion_init_def
        ex_args_unit_def ex_args_def ex_world_def py_or_def Let_def upt_rec)
  have e: "cfg_embeddings ex_torch (ex_model ''epsilon'') (prompt ex_args_unit) = 4"
    "set_timesteps (inference_scheduler (ex_model ''epsilon''))
       (num_inference_steps ex_args_unit) (sched ex_world) = 2"
    "timesteps (inference_scheduler (ex_model ''epsilon'')) 2 = [1, 0]"
    "calls ex_world = []"
    by (simp_all add: cfg_embeddings_def ex_torch_def ex_model_def StableDiffusion_init_def
        ex_args_unit_def ex_args_def ex_world_def upt_rec)
  show ?thesis
    using generate_unit_guidance[OF a b, of ex_imaging "ex_model ''epsilon''" ex_world] a b c d e
    by simp
qed

text \<open>
  In binary32 it is not so: with the unconditional prediction \<open>2 ^ 25\<close> and the
  conditional prediction \<open>1\<close>, the difference \<open>1 - 2 ^ 25\<close> rounds to \<open>- 2 ^ 25\<close>,
  and the step gets \<open>0\<close>.
\<close>

theorem unit_guidance_rounds:
  "guidance_scale f32_args = 1 \<and>
   calls (snd (generate f32_torch f32_imaging f32_model f32_args f32_world)) =
     [UnetCall [0, 0] [0] [0, 0], StepCall [0] [0] [0]] \<and>
   chunk f32_torch (unet_forward (unet f32_model) [0, 0] [0] [0, 0]) 2 = [[33554432], [1]] \<and>
   \<not> paired_calls f32_torch f32_model (\<lambda>uncond cond. cond)
       (cfg_embeddings f32_torch f32_model (prompt f32_args))
       (set_timesteps (inference_scheduler f32_model) (num_inference_steps f32_args)
          (sched f32_world))
       (timesteps (inference_scheduler f32_model)
          (set_timesteps (inference_scheduler f32_model) (num_inference_steps f32_args)
             (sched f32_world)))
       (calls (snd (generate f32_torch f32_imaging f32_model f32_args f32_world)))"
  unfolding f32_generate
  by (simp add: f32_torch_def f32_model_def StableDiffusion_init_def f32_args_def f32_world_def
      cfg_embeddings_def)

text \<open>
  C6. \<^verbatim>\<open>generate\<close> does not depend on the state of the generator it is called in:
  two calls with the same \<^verbatim>\<open>prompt\<close>, \<^verbatim>\<open>height\<close>, \<^verbatim>\<open>width\<close>,
  \<^verbatim>\<open>num_inference_steps\<close> and \<^verbatim>\<open>guidance_scale\<close>, on the same model and schedule
  state, give the same result, make the same calls and leave the schedule in the same
  state, from any two generator states.
\<close>

theorem generate_ignores_rng:
  "fst (generate T P M (a\<lparr>negative_prompt := np, num_images_per_prompt := k, eta := e\<rparr>)
          (w\<lparr>rng := g'\<rparr>)) =
     fst (generate T P M a (w\<lparr>rng := g\<rparr>)) \<and>
   calls (snd (generate T P M (a\<lparr>negative_prompt := np, num_images_per_prompt := k, eta := e\<rparr>)
          (w\<lparr>rng := g'\<rparr>))) =
     calls (snd (generate T P M a (w\<lparr>rng := g\<rparr>))) \<and>
   sched (snd (generate T P M (a\<lparr>negative_prompt := np, num_images_per_prompt := k, eta := e\<rparr>)
          (w\<lparr>rng := g'\<rparr>))) =
     sched (snd (generate T P M a (w\<lparr>rng := g\<rparr>)))"
  by (simp add: generate_def Let_def split: sum.splits prod.splits)

text \<open>
  C10. Called with the default \<^verbatim>\<open>height\<close> or the default \<^verbatim>\<open>width\<close>,
  \<^verbatim>\<open>generate\<close> raises \<^verbatim>\<open>AttributeError\<close> and returns no image.
\<close>

theorem generate_default_size_raises:
  "generate T P M (a\<lparr>height := None\<rparr>) w = (Inl (AttributeError ''vae_scale_factor''), w) \<and>
   generate T P M (a\<lparr>width := None\<rparr>) w = (Inl (AttributeError ''vae_scale_factor''), w)"
  by (simp add: generate_def py_or_def default_size_def vae_scale_factor_def split: option.splits)


text \<open>\<^verbatim>\<open>negative_prompt\<close>, \<^verbatim>\<open>num_images_per_prompt\<close> and \<^verbatim>\<open>eta\<close> are not read.\<close>

lemma generate_unread_arguments:
  "generate T P M (a\<lparr>negative_prompt := np, num_images_per_prompt := k, eta := e\<rparr>) w =
   generate T P M a w"
  by (simp add: generate_def Let_def split: sum.splits prod.splits)


section \<open>Properties of build_stable_diffusion_model\<close>

text \<open>
  C9. \<^verbatim>\<open>build_stable_diffusion_model\<close> gives the same model and makes the same
  requests whatever its first argument is, and each of its seven requests names
  \<open>CompVis/stable-diffusion-v1-4\<close>.
\<close>

theorem build_ignores_model_name:
  "build_stable_diffusion_model H name1 tte ik ck = build_stable_diffusion_model H name2 tte ik ck \<and>
   map (fst \<circ> snd) (snd (build_stable_diffusion_model H name1 tte ik ck)) =
     replicate 7 ''CompVis/stable-diffusion-v1-4''"
  by (simp add: build_stable_diffusion_model_def Let_def numeral_eq_Suc)

section \<open>Properties of main\<close>

text \<open>
  The two calls with keywords: each names a keyword that the function called does not
  take. With that, \<^verbatim>\<open>main\<close> has four ways to end, all of them exceptions.
\<close>

lemma bind_build:
  "bind_call ''build_stable_diffusion_model'' build_params [''model_name_or_path''] 0 main_build_keywords =
     Inl build_type_error"
  by (simp add: bind_call_def build_params_def main_build_keywords_def build_type_error_def)

lemma bind_generate:
  "bind_call ''StableDiffusion.generate'' generate_params [''prompt''] (Suc 0) [''num_images_per_prompt'', ''disable_progress_bar''] =
     Inl generate_type_error"
  by (simp add: bind_call_def generate_params_def generate_type_error_def)

lemma call_build_main:
  "call_build_stable_diffusion_model H main_build_keywords n tte ik ck =
     Inl build_type_error"
  by (simp add: call_build_stable_diffusion_model_def bind_build)

lemma main_cases:
  "main E cfg r =
    (let r2 = r\<lparr>stages := stages r @ SeedAll (seed cfg) #
                 (if world_size E > 1
                  then [InitializeDist (if cuda_is_available E then ''gpu'' else ''cpu'')] else [])\<rparr>
     in if grad_accum cfg = CStr ''auto'' \<and> \<not> cuda_is_available E
        then (Inl (ValueError grad_accum_message), r2)
        else (case calculate_batch_size_info E (global_train_batch_size cfg) ''auto'' of
                Inl e \<Rightarrow> (Inl e, r2)
              | Inr tb \<Rightarrow>
                  (case calculate_batch_size_info E (global_eval_batch_size cfg) ''auto'' of
                     Inl e \<Rightarrow> (Inl e, r2)
                   | Inr eb \<Rightarrow> (Inl build_type_error, r2))))"
  by (simp add: main_def call_build_main Let_def split: sum.splits)


text \<open>
  C7. With \<^verbatim>\<open>grad_accum\<close> set to \<open>auto\<close> and no GPU, \<^verbatim>\<open>main\<close> raises the
  \<^verbatim>\<open>ValueError\<close>; all it has done by then is to seed the generators and, with more
  than one process, to initialise the process group.
\<close>

theorem main_auto_on_cpu:
  assumes "grad_accum cfg = CStr ''auto''" and "\<not> cuda_is_available E"
  shows "main E cfg r =
    (Inl (ValueError grad_accum_message),
     r\<lparr>stages := stages r @ SeedAll (seed cfg) #
          (if world_size E > 1 then [InitializeDist ''cpu''] else [])\<rparr>)"
  using assms by (simp add: main_cases Let_def)

theorem main_auto_on_cpu_witness:
  "grad_accum (ex_config\<lparr>grad_accum := CStr ''auto''\<rparr>) = CStr ''auto'' \<and>
   \<not> cuda_is_available ex_env \<and>
   main ex_env (ex_config\<lparr>grad_accum := CStr ''auto''\<rparr>) ex_run =
     (Inl (ValueError grad_accum_message), ex_run\<lparr>stages := [SeedAll 17]\<rparr>)"
proof -
  have a: "grad_accum (ex_config\<lparr>grad_accum := CStr ''auto''\<rparr>) = CStr ''auto''" by simp
  have b: "\<not> cuda_is_available ex_env" by (simp add: ex_env_def)
  have c: "world_size ex_env = 1" "seed ex_config = 17" "stages ex_run = []"
    by (simp_all add: ex_env_def ex_config_def ex_run_def)
  show ?thesis using main_auto_on_cpu[OF a b, of ex_run] a b c by simp
qed


text \<open>
  C8. The call of \<^verbatim>\<open>build_stable_diffusion_model\<close> in \<^verbatim>\<open>main\<close> raises
  \<^verbatim>\<open>TypeError\<close> for the keyword \<^verbatim>\<open>train_unet\<close>, whatever the values passed. So
  \<^verbatim>\<open>main\<close> always raises, having done no more than seeding and initialising the
  process group, and when the check of \<^verbatim>\<open>grad_accum\<close> and the two batch size
  computations pass, what it raises is that \<^verbatim>\<open>TypeError\<close>.
\<close>

theorem main_build_raises_type_error:
  "filter (\<lambda>k. k \<notin> set build_params) main_build_keywords =
     [''train_unet'', ''num_images_per_prompt''] \<and>
   call_build_stable_diffusion_model H main_build_keywords n tte ik ck =
     Inl build_type_error \<and>
   (\<exists>e. fst (main E cfg r) = Inl e) \<and>
   snd (main E cfg r) =
     r\<lparr>stages := stages r @ SeedAll (seed cfg) #
          (if world_size E > 1
           then [InitializeDist (if cuda_is_available E then ''gpu'' else ''cpu'')] else [])\<rparr> \<and>
   (\<not> (grad_accum cfg = CStr ''auto'' \<and> \<not> cuda_is_available E) \<and>
    calculate_batch_size_info E (global_train_batch_size cfg) ''auto'' = Inr tb \<and>
    calculate_batch_size_info E (global_eval_batch_size cfg) ''auto'' = Inr eb \<longrightarrow>
    fst (main E cfg r) = Inl build_type_error)"
proof -
  have "filter (\<lambda>k. k \<notin> set build_params) main_build_keywords =
          [''train_unet'', ''num_images_per_prompt'']"
    by (simp add: build_params_def main_build_keywords_def)
  then show ?thesis
    by (auto simp: main_cases call_build_main Let_def split: sum.splits)
qed

theorem main_build_raises_type_error_witness:
  "\<not> (grad_accum ex_config = CStr ''auto'' \<and> \<not> cuda_is_available ex_env) \<and>
   calculate_batch_size_info ex_env (global_train_batch_size ex_config) ''auto'' = Inr 4 \<and>
   calculate_batch_size_info ex_env (global_eval_batch_size ex_config) ''auto'' = Inr 4 \<and>
   main ex_env ex_config ex_run = (Inl build_type_error,
      ex_run\<lparr>stages := [SeedAll 17]\<rparr>)"
proof -
  have a: "\<not> (grad_accum ex_config = CStr ''auto'' \<and> \<not> cuda_is_available ex_env)"
    by (simp add: ex_config_def)
  have b: "calculate_batch_size_info ex_env (global_train_batch_size ex_config) ''auto'' = Inr 4"
          "calculate_batch_size_info ex_env (global_eval_batch_size ex_config) ''auto'' = Inr 4"
    by (simp_all add: ex_env_def ex_config_def)
  have c: "world_size ex_env = 1" "seed ex_config = 17" "stages ex_run = []"
    by (simp_all add: ex_env_def ex_config_def ex_run_def)
  have "fst (main ex_env ex_config ex_run) = Inl build_type_error \<and>
    snd (main ex_env ex_config ex_run) = ex_run\<lparr>stages := [SeedAll 17]\<rparr>"
    using main_build_raises_type_error[where H = ex_hub and n = "[]" and tte = False
        and ik = "[]" and ck = "[]" and E = ex_env and cfg = ex_config and r = ex_run
        and tb = 4 and eb = 4] a b c
    by simp
  then have "main ex_env ex_config ex_run = (Inl build_type_error,
      ex_run\<lparr>stages := [SeedAll 17]\<rparr>)"
    by (simp add: prod_eq_iff)
  then show ?thesis using a b by simp
qed


text \<open>
  The pre-generation block by itself, given a model: the call of \<^verbatim>\<open>generate\<close> raises
  before its body runs, so the first batch ends the loop.
\<close>

lemma call_generate_main:
  "call_generate T P M (Suc 0) [''num_images_per_prompt'', ''disable_progress_bar''] a w =
     (Inl generate_type_error, w)"
  by (simp add: call_generate_def bind_generate)

lemma generate_class_images_files:
  "files (snd (generate_class_images E M d cur exs r)) = files r"
  by (cases exs) (simp_all add: call_generate_main)

lemma generate_class_images_raises:
  "fst (generate_class_images E M d cur (ex # exs) r) =
     Inl generate_type_error"
  by (simp add: call_generate_main)

lemma prior_preservation_files:
  "files (snd (prior_preservation E cfg M r)) =
     (if use_prior_preservation cfg \<and> files r (dataset_class_data_root cfg) = None
      then (files r)(dataset_class_data_root cfg \<mapsto> []) else files r)"
  by (auto simp: prior_preservation_def Let_def generate_class_images_files)

lemma main_files: "files (snd (main E cfg r)) = files r"
  by (simp add: main_cases Let_def split: sum.splits)

lemma ex_dataloader:
  "build_prompt_dataloader ex_env ps bs = [\<lparr>ex_prompt = ps, ex_index = map int [0..<length ps]\<rparr>]"
  by (simp add: ex_env_def)

lemma ex_prior_preservation:
  "fst (prior_preservation ex_env ex_config M ex_run) =
     Inl generate_type_error"
proof -
  have c: "use_prior_preservation ex_config" "dataset_class_data_root ex_config = ''class_images''"
    "num_class_images ex_config = 2" "files ex_run ''class_images'' = Some []"
    by (simp_all add: ex_config_def ex_run_def)
  show ?thesis
    by (simp add: prior_preservation_def Let_def c ex_dataloader call_generate_main)
qed


text \<open>
  C5. The pre-generation block writes no image, whatever the class-image directory
  holds: it leaves the directories as they were, but for creating the class-image
  directory when it is missing; and \<^verbatim>\<open>main\<close> leaves the directories untouched. On
  the example configuration, which asks for two class images and finds an empty
  directory, the block raises \<^verbatim>\<open>TypeError\<close> for the keyword
  \<^verbatim>\<open>disable_progress_bar\<close>, \<^verbatim>\<open>main\<close> raises \<^verbatim>\<open>TypeError\<close> for the keyword
  \<^verbatim>\<open>train_unet\<close>, and the directory stays empty.
\<close>

theorem pregeneration_writes_no_image:
  "files (snd (prior_preservation E cfg M r)) =
     (if use_prior_preservation cfg \<and> files r (dataset_class_data_root cfg) = None
      then (files r)(dataset_class_data_root cfg \<mapsto> []) else files r) \<and>
   files (snd (main E cfg r)) = files r \<and>
   fst (prior_preservation ex_env ex_config (ex_model ''epsilon'') ex_run) =
     Inl generate_type_error \<and>
   files (snd (prior_preservation ex_env ex_config (ex_model ''epsilon'') ex_run)) =
     [''class_images'' \<mapsto> []] \<and>
   fst (main ex_env ex_config ex_run) = Inl build_type_error \<and>
   files (snd (main ex_env ex_config ex_run)) = [''class_images'' \<mapsto> []]"
proof -
  have c: "use_prior_preservation ex_config" "dataset_class_data_root ex_config = ''class_images''"
    "files ex_run = [''class_images'' \<mapsto> []]" "grad_accum ex_config = CInt 1"
    by (simp_all add: ex_config_def ex_run_def)
  have m: "fst (main ex_env ex_config ex_run) = Inl build_type_error"
    by (simp add: main_cases Let_def c ex_env_def)
  show ?thesis
    by (simp add: prior_preservation_files main_files ex_prior_preservation m c)
qed

end
